theory Spec2Isabelle
  imports Main
begin

section \<open>The detacher \<open>setsid.c\<close>: data\<close>

text \<open>
  The program is one function, \<open>main\<close>. Besides reporting errors and exiting it calls
  eight functions of the C library: \<open>fork\<close>, \<open>setsid\<close>, \<open>getsid\<close>, \<open>fopen\<close>,
  \<open>fprintf\<close>, \<open>fflush\<close>, \<open>fclose\<close> and \<open>execvp\<close>. The library and the kernel are not
  part of the source, so every call takes its outcome from an environment \<open>env\<close>: one
  field for each function, which holds what the call returns in the process that is
  traced. No function is called twice in a run, so one field for each covers every
  behaviour of the platform.
\<close>

type_synonym errno = nat

text \<open>A call that returns a \<open>pid_t\<close>: it fails with an error number, or returns a value.
  No arithmetic is done on a \<open>pid_t\<close>, only sign tests, so \<open>int\<close> stands for it.\<close>

datatype res = Err errno | Ret int

text \<open>The \<open>FILE\<close> object behind \<open>session_file\<close>: the path it was opened on and the
  bytes that \<open>fprintf\<close> has put into its buffer and that no flush has written yet.\<close>

record stream =
  s_path :: string
  s_buf :: string

text \<open>The library calls of a run, in order, each with what it returned
  (\<open>Fopen p True\<close>: a stream, \<open>Fopen p False\<close>: \<open>NULL\<close>).\<close>

datatype call =
    Fork int
  | Setsid int
  | Getsid int
  | Fopen string bool
  | Fprintf string int
  | Fflush int
  | Fclose int
  | Execvp string "string list"

text \<open>Lines on the error stream. \<open>Usage p\<close> is the line
  \<open>usage: %s <session-file> <command> [args...]\<close> formatted with \<open>p = argv[0]\<close>
  (\<open>None\<close> is the null pointer that \<open>argv[0]\<close> is when \<open>argc = 0\<close>);
  \<open>Perror l e\<close> is the line \<open>l: strerror(e)\<close> that \<open>perror(l)\<close> prints when
  \<open>errno = e\<close>.\<close>

datatype diag = Usage "string option" | Perror string errno

text \<open>How the traced process ends: with an exit status, or replaced by another image
  that was given an argument vector.\<close>

datatype outcome = Exited int | Replaced string "string list"

record world =
  fs :: "string \<rightharpoonup> string"
  out :: string
  err :: "diag list"
  errno :: errno
  log :: "call list"

text \<open>A failing \<open>fprintf\<close>, \<open>fflush\<close> or \<open>fclose\<close> comes with the number of bytes
  it had moved before it failed.\<close>

record env =
  fork_r :: res
  setsid_r :: res
  getsid_r :: res
  fopen_r :: "errno option"
  fprintf_r :: "(errno \<times> nat) option"
  fflush_r :: "(errno \<times> nat) option"
  fclose_r :: "(errno \<times> nat) option"
  execvp_r :: "errno option"

section \<open>The library calls\<close>

definition syscall :: "res \<Rightarrow> (int \<Rightarrow> call) \<Rightarrow> world \<Rightarrow> int \<times> world" where
  "syscall r mk w =
     (case r of
        Err e \<Rightarrow> (- 1, w\<lparr>errno := e, log := log w @ [mk (- 1)]\<rparr>)
      | Ret v \<Rightarrow> (v, w\<lparr>log := log w @ [mk v]\<rparr>))"

definition fork :: "env \<Rightarrow> world \<Rightarrow> int \<times> world" where
  "fork env = syscall (fork_r env) Fork"

definition setsid :: "env \<Rightarrow> world \<Rightarrow> int \<times> world" where
  "setsid env = syscall (setsid_r env) Setsid"

definition getsid :: "env \<Rightarrow> world \<Rightarrow> int \<times> world" where
  "getsid env = syscall (getsid_r env) Getsid"

definition perror :: "string \<Rightarrow> world \<Rightarrow> world" where
  "perror label w = w\<lparr>err := err w @ [Perror label (errno w)]\<rparr>"

text \<open>\<open>fopen(path, "w")\<close>: the file is created, or truncated when it exists.\<close>

definition fopen :: "env \<Rightarrow> string \<Rightarrow> world \<Rightarrow> stream option \<times> world" where
  "fopen env path w =
     (case fopen_r env of
        Some e \<Rightarrow> (None, w\<lparr>errno := e, log := log w @ [Fopen path False]\<rparr>)
      | None \<Rightarrow>
          (Some \<lparr>s_path = path, s_buf = []\<rparr>,
           w\<lparr>fs := (fs w)(path \<mapsto> []), log := log w @ [Fopen path True]\<rparr>))"

definition content :: "world \<Rightarrow> string \<Rightarrow> string" where
  "content w p = (case fs w p of None \<Rightarrow> [] | Some c \<Rightarrow> c)"

text \<open>The first \<open>k\<close> bytes of the buffer go to the end of the file.\<close>

definition drain :: "nat \<Rightarrow> stream \<Rightarrow> world \<Rightarrow> stream \<times> world" where
  "drain k f w =
     (f\<lparr>s_buf := drop k (s_buf f)\<rparr>,
      w\<lparr>fs := (fs w)(s_path f \<mapsto> content w (s_path f) @ take k (s_buf f))\<rparr>)"

text \<open>\<open>fprintf\<close> on a stream of a regular file is fully buffered: the text goes to the
  buffer, and the call returns the number of bytes, or a negative value.\<close>

definition fprintf :: "env \<Rightarrow> stream \<Rightarrow> string \<Rightarrow> world \<Rightarrow> int \<times> stream \<times> world" where
  "fprintf env f text w =
     (case fprintf_r env of
        Some (e, k) \<Rightarrow>
          (- 1, f\<lparr>s_buf := s_buf f @ take k text\<rparr>,
           w\<lparr>errno := e, log := log w @ [Fprintf text (- 1)]\<rparr>)
      | None \<Rightarrow>
          (int (length text), f\<lparr>s_buf := s_buf f @ text\<rparr>,
           w\<lparr>log := log w @ [Fprintf text (int (length text))]\<rparr>))"

definition fflush :: "env \<Rightarrow> stream \<Rightarrow> world \<Rightarrow> int \<times> stream \<times> world" where
  "fflush env f w =
     (case fflush_r env of
        Some (e, k) \<Rightarrow>
          (let (f', w') = drain k f w
           in (- 1, f', w'\<lparr>errno := e, log := log w' @ [Fflush (- 1)]\<rparr>))
      | None \<Rightarrow>
          (let (f', w') = drain (length (s_buf f)) f w
           in (0, f', w'\<lparr>log := log w' @ [Fflush 0]\<rparr>)))"

text \<open>\<open>fclose\<close> writes what is left in the buffer and gives the stream up, also when it
  fails.\<close>

definition fclose :: "env \<Rightarrow> stream \<Rightarrow> world \<Rightarrow> int \<times> world" where
  "fclose env f w =
     (case fclose_r env of
        Some (e, k) \<Rightarrow>
          (let (f', w') = drain k f w
           in (- 1, w'\<lparr>errno := e, log := log w' @ [Fclose (- 1)]\<rparr>))
      | None \<Rightarrow>
          (let (f', w') = drain (length (s_buf f)) f w
           in (0, w'\<lparr>log := log w' @ [Fclose 0]\<rparr>)))"

text \<open>\<open>execvp\<close> returns only when it fails: \<open>None\<close> is the call that does not return.\<close>

definition execvp :: "env \<Rightarrow> string \<Rightarrow> string list \<Rightarrow> world \<Rightarrow> int option \<times> world" where
  "execvp env file args w =
     (case execvp_r env of
        Some e \<Rightarrow> (Some (- 1), w\<lparr>errno := e, log := log w @ [Execvp file args]\<rparr>)
      | None \<Rightarrow> (None, w\<lparr>log := log w @ [Execvp file args]\<rparr>))"

section \<open>Formatting \<open>%d\<close>\<close>

definition digit_char :: "nat \<Rightarrow> char" where
  "digit_char d = ''0123456789'' ! d"

fun dec_digits :: "nat \<Rightarrow> string" where
  "dec_digits n =
     (if n < 10 then [digit_char n] else dec_digits (n div 10) @ [digit_char (n mod 10)])"

declare dec_digits.simps [simp del]

definition printf_d :: "int \<Rightarrow> string" where
  "printf_d i = (if i < 0 then CHR ''-'' # dec_digits (nat (- i)) else dec_digits (nat i))"

definition newline :: char where
  "newline = CHR 0x0A"

section \<open>\<open>main\<close>\<close>

text \<open>The function \<open>main\<close> of \<open>setsid.c\<close>, statement by statement, with \<open>argc\<close> the
  length of \<open>argv\<close>. Returning \<open>n\<close> from \<open>main\<close> and \<open>exit(n)\<close> both end the process
  with status \<open>n\<close>. \<open>argv0\<close> reads \<open>argv[0]\<close>, which is the null pointer when
  \<open>argc = 0\<close>.\<close>

definition argv0 :: "string list \<Rightarrow> string option" where
  "argv0 argv = (case argv of [] \<Rightarrow> None | p # _ \<Rightarrow> Some p)"

definition main :: "env \<Rightarrow> string list \<Rightarrow> world \<Rightarrow> outcome \<times> world" where
  "main env argv w0 =
     (if int (length argv) < 3 then
        (Exited 1, w0\<lparr>err := err w0 @ [Usage (argv0 argv)]\<rparr>)
      else
        let session_file_path = argv ! 1;
            (pid, w1) = fork env w0
        in if pid < 0 then (Exited 1, perror ''fork'' w1)
        else if pid > 0 then (Exited 0, w1)
        else
          let (r, w2) = setsid env w1
          in if r < 0 then (Exited 1, perror ''setsid'' w2)
          else
            let (sid, w3) = getsid env w2
            in if sid < 0 then (Exited 1, perror ''getsid'' w3)
            else
              let (session_file, w4) = fopen env session_file_path w3
              in case session_file of
                   None \<Rightarrow> (Exited 1, perror ''fopen session file'' w4)
                 | Some f \<Rightarrow>
                    (let (n, f1, w5) = fprintf env f (printf_d sid @ [newline]) w4
                     in if n < 0 then
                          (let w6 = perror ''fprintf session file'' w5;
                               (c, w7) = fclose env f1 w6
                           in (Exited 1, w7))
                        else
                          let (fl, f2, w6) = fflush env f1 w5
                          in if fl \<noteq> 0 then
                               (let w7 = perror ''fflush session file'' w6;
                                    (c, w8) = fclose env f2 w7
                                in (Exited 1, w8))
                             else
                               let (c, w7) = fclose env f2 w6
                               in if c \<noteq> 0 then (Exited 1, perror ''fclose session file'' w7)
                               else
                                 let (x, w8) = execvp env (argv ! 2) (drop 2 argv) w7
                                 in (case x of
                                       None \<Rightarrow> (Replaced (argv ! 2) (drop 2 argv), w8)
                                     | Some _ \<Rightarrow> (Exited 1, perror ''execvp'' w8))))"

text \<open>\<open>fork\<close> returns twice when it succeeds: \<open>launch\<close> pairs the run of the parent,
  where \<open>fork\<close> returns the pid of the child, with the run of the child, where it
  returns 0. Everything else in \<open>env\<close> is what the calls of the child return.\<close>

definition launch ::
  "env \<Rightarrow> int \<Rightarrow> string list \<Rightarrow> world \<Rightarrow> (outcome \<times> world) \<times> (outcome \<times> world)" where
  "launch env cpid argv w =
     (main (env\<lparr>fork_r := Ret cpid\<rparr>) argv w, main (env\<lparr>fork_r := Ret 0\<rparr>) argv w)"

section \<open>What a run shows\<close>

text \<open>The value a \<open>pid_t\<close> call returns, and \<open>errno\<close> after it.\<close>

definition ret :: "res \<Rightarrow> int" where
  "ret r = (case r of Err e \<Rightarrow> - 1 | Ret v \<Rightarrow> v)"

definition perr :: "res \<Rightarrow> errno \<Rightarrow> errno" where
  "perr r e0 = (case r of Err e \<Rightarrow> e | Ret v \<Rightarrow> e0)"

text \<open>The exit status or new image of a run, the world it leaves, the library calls it
  made and the lines it put on the error stream.\<close>

definition status :: "env \<Rightarrow> string list \<Rightarrow> world \<Rightarrow> outcome" where
  "status env argv w = fst (main env argv w)"

definition final :: "env \<Rightarrow> string list \<Rightarrow> world \<Rightarrow> world" where
  "final env argv w = snd (main env argv w)"

definition calls :: "env \<Rightarrow> string list \<Rightarrow> world \<Rightarrow> call list" where
  "calls env argv w = drop (length (log w)) (log (final env argv w))"

definition diags :: "env \<Rightarrow> string list \<Rightarrow> world \<Rightarrow> diag list" where
  "diags env argv w = drop (length (err w)) (err (final env argv w))"

text \<open>The name of the library function behind a call.\<close>

fun fn :: "call \<Rightarrow> string" where
  "fn (Fork _) = ''fork''"
| "fn (Setsid _) = ''setsid''"
| "fn (Getsid _) = ''getsid''"
| "fn (Fopen _ _) = ''fopen''"
| "fn (Fprintf _ _) = ''fprintf''"
| "fn (Fflush _) = ''fflush''"
| "fn (Fclose _) = ''fclose''"
| "fn (Execvp _ _) = ''execvp''"

fun is_exec :: "call \<Rightarrow> bool" where
  "is_exec (Execvp _ _) = True"
| "is_exec _ = False"

text \<open>The calls that create, change or give up the session file.\<close>

fun on_file :: "call \<Rightarrow> bool" where
  "on_file (Fopen _ _) = True"
| "on_file (Fprintf _ _) = True"
| "on_file (Fflush _) = True"
| "on_file (Fclose _) = True"
| "on_file _ = False"

text \<open>The number of streams that are open after a list of calls, from \<open>n\<close> open ones:
  a successful \<open>fopen\<close> opens one, every \<open>fclose\<close> gives one up. \<open>None\<close>: an
  \<open>fclose\<close> came when no stream was open.\<close>

fun open_streams :: "call list \<Rightarrow> nat \<Rightarrow> nat option" where
  "open_streams [] n = Some n"
| "open_streams (Fopen p True # cs) n = open_streams cs (Suc n)"
| "open_streams (Fclose r # cs) n = (case n of 0 \<Rightarrow> None | Suc m \<Rightarrow> open_streams cs m)"
| "open_streams (c # cs) n = open_streams cs n"

text \<open>Reading a decimal numeral back.\<close>

definition is_digit :: "char \<Rightarrow> bool" where
  "is_digit c = (c \<in> set ''0123456789'')"

definition digit_val :: "char \<Rightarrow> nat" where
  "digit_val c = of_char c - 48"

definition dec_value :: "string \<Rightarrow> nat" where
  "dec_value ds = foldl (\<lambda>a c. 10 * a + digit_val c) 0 ds"

section \<open>A sample run\<close>

text \<open>An environment in which every call succeeds in the child (session id 4242), an
  argument vector and a world in which the session file exists with old content, used to
  run \<open>main\<close> on concrete inputs.\<close>

definition env_ok :: env where
  "env_ok = \<lparr>fork_r = Ret 0, setsid_r = Ret 4242, getsid_r = Ret 4242, fopen_r = None,
     fprintf_r = None, fflush_r = None, fclose_r = None, execvp_r = None\<rparr>"

definition argv_ok :: "string list" where
  "argv_ok = [''setsid'', ''/tmp/sess.txt'', ''echo'', ''hello'', ''world'']"

definition w_init :: world where
  "w_init = \<lparr>fs = [''/tmp/sess.txt'' \<mapsto> ''stale''], out = [], err = [], errno = 0, log = []\<rparr>"

section \<open>Decimal numerals\<close>

lemma digit_char_is_digit: "d < 10 \<Longrightarrow> is_digit (digit_char d)"
  by (simp add: digit_char_def is_digit_def nth_Cons')

lemma digit_val_digit_char: "d < 10 \<Longrightarrow> digit_val (digit_char d) = d"
proof -
  assume "d < 10"
  then have "d = 0 \<or> d = 1 \<or> d = 2 \<or> d = 3 \<or> d = 4 \<or> d = 5 \<or> d = 6 \<or> d = 7 \<or> d = 8 \<or> d = 9"
    by arith
  then show ?thesis
    by (elim disjE) (simp_all add: digit_char_def digit_val_def)
qed

lemma dec_digits_ne: "dec_digits n \<noteq> []"
  by (subst dec_digits.simps) simp

lemma dec_digits_all_digits: "list_all is_digit (dec_digits n)"
proof (induction n rule: dec_digits.induct)
  case (1 n)
  show ?case
  proof (cases "n < 10")
    case True
    then show ?thesis
      by (subst dec_digits.simps) (simp add: digit_char_is_digit)
  next
    case False
    with 1 show ?thesis
      by (subst dec_digits.simps) (simp add: digit_char_is_digit)
  qed
qed

lemma dec_value_snoc: "dec_value (ds @ [c]) = 10 * dec_value ds + digit_val c"
  by (simp add: dec_value_def)

lemma dec_value_dec_digits: "dec_value (dec_digits n) = n"
proof (induction n rule: dec_digits.induct)
  case (1 n)
  show ?case
  proof (cases "n < 10")
    case True
    then show ?thesis
      by (subst dec_digits.simps) (simp add: dec_value_def digit_val_digit_char)
  next
    case False
    with 1 show ?thesis
      by (subst dec_digits.simps) (simp add: dec_value_snoc digit_val_digit_char)
  qed
qed

lemma newline_not_digit: "\<not> is_digit newline"
  by (simp add: is_digit_def newline_def)

lemma printf_d_nonneg: "0 \<le> i \<Longrightarrow> printf_d i = dec_digits (nat i)"
  by (simp add: printf_d_def)

section \<open>The paths through \<open>main\<close>\<close>

lemma syscall_eq:
  "syscall r mk w = (ret r, w\<lparr>errno := perr r (errno w), log := log w @ [mk (ret r)]\<rparr>)"
  by (cases r) (simp_all add: syscall_def ret_def perr_def)

lemmas obs = status_def final_def calls_def diags_def

lemmas prims = syscall_eq fork_def setsid_def getsid_def perror_def fopen_def content_def
  drain_def fprintf_def fflush_def fclose_def execvp_def Let_def

lemma path_usage:
  assumes "length argv < 3"
  shows "status env argv w = Exited 1" "calls env argv w = []"
    "diags env argv w = [Usage (argv0 argv)]" "fs (final env argv w) = fs w"
    "out (final env argv w) = out w"
  using assms by (simp_all add: obs main_def)

lemma path_fork_fail:
  assumes "3 \<le> length argv" "ret (fork_r env) < 0"
  shows "status env argv w = Exited 1" "calls env argv w = [Fork (ret (fork_r env))]"
    "diags env argv w = [Perror ''fork'' (perr (fork_r env) (errno w))]"
    "fs (final env argv w) = fs w"
    "out (final env argv w) = out w"
  using assms by (simp_all add: obs main_def prims)

lemma path_parent:
  assumes "3 \<le> length argv" "0 < ret (fork_r env)"
  shows "status env argv w = Exited 0" "calls env argv w = [Fork (ret (fork_r env))]"
    "diags env argv w = []"
    "fs (final env argv w) = fs w"
    "out (final env argv w) = out w"
  using assms by (simp_all add: obs main_def prims)

lemma path_setsid_fail:
  assumes "3 \<le> length argv" "ret (fork_r env) = 0" "ret (setsid_r env) < 0"
  shows "status env argv w = Exited 1"
    "calls env argv w = [Fork 0, Setsid (ret (setsid_r env))]"
    "diags env argv w =
       [Perror ''setsid'' (perr (setsid_r env) (perr (fork_r env) (errno w)))]"
    "fs (final env argv w) = fs w"
    "out (final env argv w) = out w"
  using assms by (simp_all add: obs main_def prims)

lemma path_getsid_fail:
  assumes "3 \<le> length argv" "ret (fork_r env) = 0" "0 \<le> ret (setsid_r env)"
    "ret (getsid_r env) < 0"
  shows "status env argv w = Exited 1"
    "calls env argv w = [Fork 0, Setsid (ret (setsid_r env)), Getsid (ret (getsid_r env))]"
    "diags env argv w =
       [Perror ''getsid''
          (perr (getsid_r env) (perr (setsid_r env) (perr (fork_r env) (errno w))))]"
    "fs (final env argv w) = fs w"
    "out (final env argv w) = out w"
  using assms by (simp_all add: obs main_def prims)

lemma path_fopen_fail:
  assumes "3 \<le> length argv" "ret (fork_r env) = 0" "0 \<le> ret (setsid_r env)"
    "0 \<le> ret (getsid_r env)" "fopen_r env = Some e"
  shows "status env argv w = Exited 1"
    "calls env argv w =
       [Fork 0, Setsid (ret (setsid_r env)), Getsid (ret (getsid_r env)),
        Fopen (argv ! 1) False]"
    "diags env argv w = [Perror ''fopen session file'' e]"
    "fs (final env argv w) = fs w"
    "out (final env argv w) = out w"
  using assms by (simp_all add: obs main_def prims)

lemma path_fprintf_fail:
  assumes "3 \<le> length argv" "ret (fork_r env) = 0" "0 \<le> ret (setsid_r env)"
    "0 \<le> ret (getsid_r env)" "fopen_r env = None" "fprintf_r env = Some (e, k)"
  shows "status env argv w = Exited 1"
    "calls env argv w =
       [Fork 0, Setsid (ret (setsid_r env)), Getsid (ret (getsid_r env)),
        Fopen (argv ! 1) True, Fprintf (printf_d (ret (getsid_r env)) @ [newline]) (- 1),
        Fclose (case fclose_r env of None \<Rightarrow> 0 | Some _ \<Rightarrow> - 1)]"
    "diags env argv w = [Perror ''fprintf session file'' e]"
    "out (final env argv w) = out w"
  using assms by (cases "fclose_r env"; simp add: obs main_def prims case_prod_beta)+

lemma path_fflush_fail:
  assumes "3 \<le> length argv" "ret (fork_r env) = 0" "0 \<le> ret (setsid_r env)"
    "0 \<le> ret (getsid_r env)" "fopen_r env = None" "fprintf_r env = None"
    "fflush_r env = Some (e, k)"
  shows "status env argv w = Exited 1"
    "calls env argv w =
       [Fork 0, Setsid (ret (setsid_r env)), Getsid (ret (getsid_r env)),
        Fopen (argv ! 1) True,
        Fprintf (printf_d (ret (getsid_r env)) @ [newline])
          (int (length (printf_d (ret (getsid_r env)) @ [newline]))),
        Fflush (- 1),
        Fclose (case fclose_r env of None \<Rightarrow> 0 | Some _ \<Rightarrow> - 1)]"
    "diags env argv w = [Perror ''fflush session file'' e]"
    "out (final env argv w) = out w"
  using assms by (cases "fclose_r env"; simp add: obs main_def prims case_prod_beta)+

lemma path_fclose_fail:
  assumes "3 \<le> length argv" "ret (fork_r env) = 0" "0 \<le> ret (setsid_r env)"
    "0 \<le> ret (getsid_r env)" "fopen_r env = None" "fprintf_r env = None"
    "fflush_r env = None" "fclose_r env = Some (e, k)"
  shows "status env argv w = Exited 1"
    "calls env argv w =
       [Fork 0, Setsid (ret (setsid_r env)), Getsid (ret (getsid_r env)),
        Fopen (argv ! 1) True,
        Fprintf (printf_d (ret (getsid_r env)) @ [newline])
          (int (length (printf_d (ret (getsid_r env)) @ [newline]))),
        Fflush 0, Fclose (- 1)]"
    "diags env argv w = [Perror ''fclose session file'' e]"
    "fs (final env argv w) = (fs w)(argv ! 1 \<mapsto> printf_d (ret (getsid_r env)) @ [newline])"
    "out (final env argv w) = out w"
  using assms by (simp_all add: obs main_def prims)

lemma path_exec:
  assumes "3 \<le> length argv" "ret (fork_r env) = 0" "0 \<le> ret (setsid_r env)"
    "0 \<le> ret (getsid_r env)" "fopen_r env = None" "fprintf_r env = None"
    "fflush_r env = None" "fclose_r env = None"
  shows "status env argv w =
      (case execvp_r env of None \<Rightarrow> Replaced (argv ! 2) (drop 2 argv) | Some e \<Rightarrow> Exited 1)"
    "calls env argv w =
       [Fork 0, Setsid (ret (setsid_r env)), Getsid (ret (getsid_r env)),
        Fopen (argv ! 1) True,
        Fprintf (printf_d (ret (getsid_r env)) @ [newline])
          (int (length (printf_d (ret (getsid_r env)) @ [newline]))),
        Fflush 0, Fclose 0, Execvp (argv ! 2) (drop 2 argv)]"
    "diags env argv w = (case execvp_r env of None \<Rightarrow> [] | Some e \<Rightarrow> [Perror ''execvp'' e])"
    "fs (final env argv w) = (fs w)(argv ! 1 \<mapsto> printf_d (ret (getsid_r env)) @ [newline])"
    "out (final env argv w) = out w"
  using assms by (cases "execvp_r env"; simp add: obs main_def prims)+

text \<open>Every run takes one of these paths.\<close>

lemma run_cases [case_names usage fork_fail parent setsid_fail getsid_fail fopen_fail
    fprintf_fail fflush_fail fclose_fail exec]:
  obtains "length argv < 3"
  | "3 \<le> length argv" "ret (fork_r env) < 0"
  | "3 \<le> length argv" "0 < ret (fork_r env)"
  | "3 \<le> length argv" "ret (fork_r env) = 0" "ret (setsid_r env) < 0"
  | "3 \<le> length argv" "ret (fork_r env) = 0" "0 \<le> ret (setsid_r env)"
      "ret (getsid_r env) < 0"
  | e where "3 \<le> length argv" "ret (fork_r env) = 0" "0 \<le> ret (setsid_r env)"
      "0 \<le> ret (getsid_r env)" "fopen_r env = Some e"
  | e k where "3 \<le> length argv" "ret (fork_r env) = 0" "0 \<le> ret (setsid_r env)"
      "0 \<le> ret (getsid_r env)" "fopen_r env = None" "fprintf_r env = Some (e, k)"
  | e k where "3 \<le> length argv" "ret (fork_r env) = 0" "0 \<le> ret (setsid_r env)"
      "0 \<le> ret (getsid_r env)" "fopen_r env = None" "fprintf_r env = None"
      "fflush_r env = Some (e, k)"
  | e k where "3 \<le> length argv" "ret (fork_r env) = 0" "0 \<le> ret (setsid_r env)"
      "0 \<le> ret (getsid_r env)" "fopen_r env = None" "fprintf_r env = None"
      "fflush_r env = None" "fclose_r env = Some (e, k)"
  | "3 \<le> length argv" "ret (fork_r env) = 0" "0 \<le> ret (setsid_r env)"
      "0 \<le> ret (getsid_r env)" "fopen_r env = None" "fprintf_r env = None"
      "fflush_r env = None" "fclose_r env = None"
proof (cases "length argv < 3")
  case True
  then show ?thesis by (rule that(1))
next
  case args: False
  show ?thesis
  proof (cases "ret (fork_r env) < 0")
    case True
    with args show ?thesis by (intro that(2)) simp_all
  next
    case nf: False
    show ?thesis
    proof (cases "0 < ret (fork_r env)")
      case True
      with args show ?thesis by (intro that(3)) simp_all
    next
      case False
      with nf have child: "ret (fork_r env) = 0" by simp
      show ?thesis
      proof (cases "ret (setsid_r env) < 0")
        case True
        with args child show ?thesis by (intro that(4)) simp_all
      next
        case ss: False
        show ?thesis
        proof (cases "ret (getsid_r env) < 0")
          case True
          with args child ss show ?thesis by (intro that(5)) simp_all
        next
          case gs: False
          show ?thesis
          proof (cases "fopen_r env")
            case (Some e)
            with args child ss gs show ?thesis by (intro that(6)) simp_all
          next
            case fo: None
            show ?thesis
            proof (cases "fprintf_r env")
              case (Some ek)
              with args child ss gs fo show ?thesis
                by (cases ek) (auto intro: that(7))
            next
              case fp: None
              show ?thesis
              proof (cases "fflush_r env")
                case (Some ek)
                with args child ss gs fo fp show ?thesis
                  by (cases ek) (auto intro: that(8))
              next
                case ff: None
                show ?thesis
                proof (cases "fclose_r env")
                  case (Some ek)
                  with args child ss gs fo fp ff show ?thesis
                    by (cases ek) (auto intro: that(9))
                next
                  case None
                  with args child ss gs fo fp ff show ?thesis
                    by (intro that(10)) simp_all
                qed
              qed
            qed
          qed
        qed
      qed
    qed
  qed
qed

section \<open>Facts about the sample run\<close>

lemma dec_4242: "dec_digits 4242 = ''4242''"
  by (simp add: dec_digits.simps digit_char_def)

lemma env_ok_child:
  "3 \<le> length argv_ok" "ret (fork_r env_ok) = 0" "0 \<le> ret (setsid_r env_ok)"
  "0 \<le> ret (getsid_r env_ok)" "fopen_r env_ok = None" "fprintf_r env_ok = None"
  "fflush_r env_ok = None" "fclose_r env_ok = None"
  by (simp_all add: env_ok_def argv_ok_def ret_def)

lemma env_ok_vals:
  "ret (getsid_r env_ok) = 4242" "ret (setsid_r env_ok) = 4242"
  "argv_ok ! Suc 0 = ''/tmp/sess.txt''" "argv_ok ! 2 = ''echo''"
  "drop 2 argv_ok = [''echo'', ''hello'', ''world'']"
  "drop 3 argv_ok = [''hello'', ''world'']"
  "printf_d 4242 = ''4242''"
  by (simp_all add: env_ok_def argv_ok_def ret_def printf_d_def dec_digits.simps
      digit_char_def)

lemmas fail_paths = path_usage path_fork_fail path_parent path_setsid_fail
  path_getsid_fail path_fopen_fail path_fprintf_fail path_fflush_fail path_fclose_fail

section \<open>The claims\<close>

text \<open>
  Claim C1. In the child, when at least two arguments are given and \<open>fork\<close>,
  \<open>setsid\<close>, \<open>getsid\<close>, \<open>fopen\<close>, \<open>fprintf\<close>, \<open>fflush\<close> and \<open>fclose\<close> all
  succeed, the session file holds one line and nothing else: the decimal digits of the
  session id, which is not negative, and a newline. The digits read back as the value that
  \<open>getsid\<close> returned, and \<open>getsid\<close> was called right after \<open>setsid\<close>.
\<close>

theorem session_file_one_line:
  assumes "3 \<le> length argv" "ret (fork_r env) = 0" "0 \<le> ret (setsid_r env)"
    "0 \<le> ret (getsid_r env)" "fopen_r env = None" "fprintf_r env = None"
    "fflush_r env = None" "fclose_r env = None"
  shows "fs (final env argv w) (argv ! 1) =
        Some (dec_digits (nat (ret (getsid_r env))) @ [newline])
    \<and> dec_digits (nat (ret (getsid_r env))) \<noteq> []
    \<and> list_all is_digit (dec_digits (nat (ret (getsid_r env))))
    \<and> \<not> is_digit newline
    \<and> int (dec_value (dec_digits (nat (ret (getsid_r env))))) = ret (getsid_r env)
    \<and> take 3 (calls env argv w) =
        [Fork 0, Setsid (ret (setsid_r env)), Getsid (ret (getsid_r env))]"
  using assms
  by (simp add: path_exec printf_d_nonneg dec_digits_ne dec_digits_all_digits
      newline_not_digit dec_value_dec_digits)

theorem session_file_one_line_witness:
  "3 \<le> length argv_ok \<and> ret (fork_r env_ok) = 0 \<and> 0 \<le> ret (setsid_r env_ok)
   \<and> 0 \<le> ret (getsid_r env_ok) \<and> fopen_r env_ok = None \<and> fprintf_r env_ok = None
   \<and> fflush_r env_ok = None \<and> fclose_r env_ok = None
   \<and> fs (final env_ok argv_ok w_init) ''/tmp/sess.txt'' = Some (''4242'' @ [newline])
   \<and> dec_value ''4242'' = 4242
   \<and> take 3 (calls env_ok argv_ok w_init) = [Fork 0, Setsid 4242, Getsid 4242]"
proof -
  have h: "3 \<le> length argv_ok" "ret (fork_r env_ok) = 0" "0 \<le> ret (setsid_r env_ok)"
    "0 \<le> ret (getsid_r env_ok)" "fopen_r env_ok = None" "fprintf_r env_ok = None"
    "fflush_r env_ok = None" "fclose_r env_ok = None"
    by (simp_all add: env_ok_def argv_ok_def ret_def)
  have g: "ret (getsid_r env_ok) = 4242" "ret (setsid_r env_ok) = 4242"
    "argv_ok ! Suc 0 = ''/tmp/sess.txt''"
    by (simp_all add: env_ok_def argv_ok_def ret_def)
  from session_file_one_line [OF h, of w_init] h show ?thesis
    by (simp add: g dec_4242)
qed

text \<open>
  Claim C2. A run that calls \<open>execvp\<close> has made, before it and in this order, a
  successful \<open>fopen\<close>, \<open>fprintf\<close>, \<open>fflush\<close> and \<open>fclose\<close> of the session file, and
  \<open>execvp\<close> is its last call. The call leaves the files as they are, so the session file
  holds the line with the session id when \<open>execvp\<close> is tried, and still does when
  \<open>execvp\<close> fails and the run ends with status 1 after \<open>perror("execvp")\<close>.
\<close>

theorem exec_after_session_file:
  assumes "Execvp f a \<in> set (calls env argv w)"
  shows "calls env argv w =
       [Fork 0, Setsid (ret (setsid_r env)), Getsid (ret (getsid_r env)),
        Fopen (argv ! 1) True,
        Fprintf (printf_d (ret (getsid_r env)) @ [newline])
          (int (length (printf_d (ret (getsid_r env)) @ [newline]))),
        Fflush 0, Fclose 0, Execvp f a]
    \<and> 0 \<le> ret (getsid_r env)
    \<and> fs (final env argv w) (argv ! 1) =
        Some (dec_digits (nat (ret (getsid_r env))) @ [newline])
    \<and> fs (snd (execvp env f a w')) = fs w'
    \<and> (execvp_r env = Some e \<longrightarrow>
          status env argv w = Exited 1 \<and> diags env argv w = [Perror ''execvp'' e])"
proof (cases rule: run_cases [where argv = argv and env = env])
  case exec
  have "fs (snd (execvp env f a w')) = fs w'"
    by (cases "execvp_r env") (simp_all add: execvp_def)
  with assms exec show ?thesis
    by (simp add: path_exec printf_d_nonneg)
qed (use assms in \<open>simp_all add: path_usage path_fork_fail path_parent path_setsid_fail
      path_getsid_fail path_fopen_fail path_fprintf_fail path_fflush_fail path_fclose_fail\<close>)

theorem exec_after_session_file_witness:
  "Execvp ''echo'' [''echo'', ''hello'', ''world'']
     \<in> set (calls (env_ok\<lparr>execvp_r := Some 2\<rparr>) argv_ok w_init)
   \<and> calls (env_ok\<lparr>execvp_r := Some 2\<rparr>) argv_ok w_init =
       [Fork 0, Setsid 4242, Getsid 4242, Fopen ''/tmp/sess.txt'' True,
        Fprintf (''4242'' @ [newline]) 5, Fflush 0, Fclose 0,
        Execvp ''echo'' [''echo'', ''hello'', ''world'']]
   \<and> fs (final (env_ok\<lparr>execvp_r := Some 2\<rparr>) argv_ok w_init) ''/tmp/sess.txt'' =
       Some (''4242'' @ [newline])
   \<and> status (env_ok\<lparr>execvp_r := Some 2\<rparr>) argv_ok w_init = Exited 1
   \<and> diags (env_ok\<lparr>execvp_r := Some 2\<rparr>) argv_ok w_init = [Perror ''execvp'' 2]"
proof -
  have c: "calls (env_ok\<lparr>execvp_r := Some 2\<rparr>) argv_ok w_init =
       [Fork 0, Setsid 4242, Getsid 4242, Fopen ''/tmp/sess.txt'' True,
        Fprintf (''4242'' @ [newline]) 5, Fflush 0, Fclose 0,
        Execvp ''echo'' [''echo'', ''hello'', ''world'']]"
    using env_ok_child by (simp add: path_exec env_ok_vals)
  then have m: "Execvp ''echo'' [''echo'', ''hello'', ''world'']
     \<in> set (calls (env_ok\<lparr>execvp_r := Some 2\<rparr>) argv_ok w_init)"
    by simp
  from exec_after_session_file [OF m, where w' = w_init and e = 2] m show ?thesis
    by (simp add: env_ok_vals dec_4242)
qed

text \<open>
  Claim C3. With fewer than two arguments after the program name (\<open>argc < 3\<close>) the run
  puts the usage line on the error stream and ends with status 1; it makes no library call
  at all, so there is no \<open>fork\<close> and no \<open>fopen\<close>, and the files are as before. (When
  \<open>argc = 0\<close> the line is formatted with the null pointer that \<open>argv[0]\<close> then is.)
\<close>

theorem usage_error_no_effect:
  assumes "length argv < 3"
  shows "status env argv w = Exited 1 \<and> diags env argv w = [Usage (argv0 argv)]
    \<and> calls env argv w = [] \<and> fs (final env argv w) = fs w"
  using assms by (simp add: path_usage)

theorem usage_error_no_effect_witness:
  "length [''setsid'', ''/tmp/sess.txt''] < 3
   \<and> status env_ok [''setsid'', ''/tmp/sess.txt''] w_init = Exited 1
   \<and> diags env_ok [''setsid'', ''/tmp/sess.txt''] w_init = [Usage (Some ''setsid'')]
   \<and> calls env_ok [''setsid'', ''/tmp/sess.txt''] w_init = []
   \<and> fs (final env_ok [''setsid'', ''/tmp/sess.txt''] w_init) = fs w_init"
  using usage_error_no_effect [of "[''setsid'', ''/tmp/sess.txt'']" env_ok w_init]
  by (simp add: argv0_def)

text \<open>
  Claim C4. When \<open>fork\<close> succeeds, the parent ends with status 0 at once: \<open>fork\<close> is the
  only call it makes (it does not wait), and nothing but the log of that call changes.
  This does not depend on what the calls of the child return.
\<close>

theorem parent_exits_at_once:
  assumes "0 < cpid" "3 \<le> length argv"
  shows "fst (launch env cpid argv w) = (Exited 0, w\<lparr>log := log w @ [Fork cpid]\<rparr>)
    \<and> fst (launch env' cpid argv w) = fst (launch env cpid argv w)"
  using assms by (simp add: launch_def main_def fork_def syscall_def)

theorem parent_exits_at_once_witness:
  "(0::int) < 77 \<and> 3 \<le> length argv_ok
   \<and> fst (launch env_ok 77 argv_ok w_init) =
       (Exited 0, w_init\<lparr>log := log w_init @ [Fork 77]\<rparr>)
   \<and> fst (launch (env_ok\<lparr>setsid_r := Err 1\<rparr>) 77 argv_ok w_init) =
       fst (launch env_ok 77 argv_ok w_init)
   \<and> fst (snd (launch (env_ok\<lparr>setsid_r := Err 1\<rparr>) 77 argv_ok w_init)) = Exited 1"
proof -
  have h: "(0::int) < 77" "3 \<le> length argv_ok"
    by (simp_all add: argv_ok_def)
  have c: "fst (snd (launch (env_ok\<lparr>setsid_r := Err 1\<rparr>) 77 argv_ok w_init)) = Exited 1"
    using path_setsid_fail(1)
      [of argv_ok "env_ok\<lparr>setsid_r := Err 1, fork_r := Ret 0\<rparr>" w_init]
    by (simp add: launch_def status_def argv_ok_def ret_def)
  from parent_exits_at_once [OF h, of env_ok w_init "env_ok\<lparr>setsid_r := Err 1\<rparr>"] h c
  show ?thesis by simp
qed

text \<open>
  Claim C5. The status of every run: 1 for a usage error, for a failing \<open>fork\<close>,
  \<open>setsid\<close> or \<open>getsid\<close>, for a failing \<open>fopen\<close>, \<open>fprintf\<close>, \<open>fflush\<close> or
  \<open>fclose\<close> and for a failing \<open>execvp\<close>; 0 for the parent of a successful \<open>fork\<close>;
  and otherwise the process is replaced. No other status occurs, and no library function
  is called twice in a run, so nothing is retried.
\<close>

theorem failures_exit_1:
  "status env argv w =
     (if length argv < 3 then Exited 1
      else if ret (fork_r env) < 0 then Exited 1
      else if 0 < ret (fork_r env) then Exited 0
      else if ret (setsid_r env) < 0 then Exited 1
      else if ret (getsid_r env) < 0 then Exited 1
      else if fopen_r env \<noteq> None then Exited 1
      else if fprintf_r env \<noteq> None then Exited 1
      else if fflush_r env \<noteq> None then Exited 1
      else if fclose_r env \<noteq> None then Exited 1
      else if execvp_r env \<noteq> None then Exited 1
      else Replaced (argv ! 2) (drop 2 argv))
   \<and> distinct (map fn (calls env argv w))"
proof (cases rule: run_cases [where argv = argv and env = env])
  case exec
  then show ?thesis
    by (cases "execvp_r env") (simp_all add: path_exec)
next
  case (fprintf_fail e k)
  then show ?thesis
    by (cases "fclose_r env") (simp_all add: path_fprintf_fail)
next
  case (fflush_fail e k)
  then show ?thesis
    by (cases "fclose_r env") (simp_all add: path_fflush_fail)
qed (simp_all add: path_usage path_fork_fail path_parent path_setsid_fail
      path_getsid_fail path_fopen_fail path_fclose_fail)

theorem failures_exit_1_witness:
  "status env_ok [''setsid''] w_init = Exited 1
   \<and> status (env_ok\<lparr>fork_r := Err 35\<rparr>) argv_ok w_init = Exited 1
   \<and> status (env_ok\<lparr>fork_r := Ret 77\<rparr>) argv_ok w_init = Exited 0
   \<and> status (env_ok\<lparr>setsid_r := Err 1\<rparr>) argv_ok w_init = Exited 1
   \<and> status (env_ok\<lparr>getsid_r := Err 1\<rparr>) argv_ok w_init = Exited 1
   \<and> status (env_ok\<lparr>fopen_r := Some 2\<rparr>) argv_ok w_init = Exited 1
   \<and> status (env_ok\<lparr>fprintf_r := Some (28, 0)\<rparr>) argv_ok w_init = Exited 1
   \<and> status (env_ok\<lparr>fflush_r := Some (28, 3)\<rparr>) argv_ok w_init = Exited 1
   \<and> status (env_ok\<lparr>fclose_r := Some (5, 0)\<rparr>) argv_ok w_init = Exited 1
   \<and> status (env_ok\<lparr>execvp_r := Some 2\<rparr>) argv_ok w_init = Exited 1
   \<and> status env_ok argv_ok w_init = Replaced ''echo'' [''echo'', ''hello'', ''world'']"
  using failures_exit_1 [of env_ok "[''setsid'']" w_init]
    failures_exit_1 [of "env_ok\<lparr>fork_r := Err 35\<rparr>" argv_ok w_init]
    failures_exit_1 [of "env_ok\<lparr>fork_r := Ret 77\<rparr>" argv_ok w_init]
    failures_exit_1 [of "env_ok\<lparr>setsid_r := Err 1\<rparr>" argv_ok w_init]
    failures_exit_1 [of "env_ok\<lparr>getsid_r := Err 1\<rparr>" argv_ok w_init]
    failures_exit_1 [of "env_ok\<lparr>fopen_r := Some 2\<rparr>" argv_ok w_init]
    failures_exit_1 [of "env_ok\<lparr>fprintf_r := Some (28, 0)\<rparr>" argv_ok w_init]
    failures_exit_1 [of "env_ok\<lparr>fflush_r := Some (28, 3)\<rparr>" argv_ok w_init]
    failures_exit_1 [of "env_ok\<lparr>fclose_r := Some (5, 0)\<rparr>" argv_ok w_init]
    failures_exit_1 [of "env_ok\<lparr>execvp_r := Some 2\<rparr>" argv_ok w_init]
    failures_exit_1 [of env_ok argv_ok w_init]
  by (simp add: env_ok_def argv_ok_def ret_def)

text \<open>
  Claim C6. In the child, after \<open>setsid\<close> and \<open>getsid\<close> have succeeded: when \<open>fopen\<close>,
  \<open>fprintf\<close>, \<open>fflush\<close> or \<open>fclose\<close> of the session file fails with error number
  \<open>e\<close>, the run puts the \<open>perror\<close> line of that step for \<open>e\<close> on the error stream, ends
  with status 1 and never calls \<open>execvp\<close>. A parent directory that is missing or not
  writable makes \<open>fopen\<close> fail (with \<open>ENOENT\<close> or \<open>EACCES\<close>), which is the first case.
\<close>

theorem file_io_failure_stops_before_exec:
  assumes "3 \<le> length argv" "ret (fork_r env) = 0" "0 \<le> ret (setsid_r env)"
    "0 \<le> ret (getsid_r env)"
  shows "(fopen_r env = Some e \<longrightarrow>
            status env argv w = Exited 1
          \<and> diags env argv w = [Perror ''fopen session file'' e]
          \<and> \<not> list_ex is_exec (calls env argv w))
    \<and> (fopen_r env = None \<and> fprintf_r env = Some (e, k) \<longrightarrow>
            status env argv w = Exited 1
          \<and> diags env argv w = [Perror ''fprintf session file'' e]
          \<and> \<not> list_ex is_exec (calls env argv w))
    \<and> (fopen_r env = None \<and> fprintf_r env = None \<and> fflush_r env = Some (e, k) \<longrightarrow>
            status env argv w = Exited 1
          \<and> diags env argv w = [Perror ''fflush session file'' e]
          \<and> \<not> list_ex is_exec (calls env argv w))
    \<and> (fopen_r env = None \<and> fprintf_r env = None \<and> fflush_r env = None
          \<and> fclose_r env = Some (e, k) \<longrightarrow>
            status env argv w = Exited 1
          \<and> diags env argv w = [Perror ''fclose session file'' e]
          \<and> \<not> list_ex is_exec (calls env argv w))"
  using assms
  by (simp add: path_fopen_fail path_fprintf_fail path_fflush_fail path_fclose_fail)

theorem file_io_failure_stops_before_exec_witness:
  "3 \<le> length argv_ok \<and> ret (fork_r env_ok) = 0 \<and> 0 \<le> ret (setsid_r env_ok)
   \<and> 0 \<le> ret (getsid_r env_ok)
   \<and> fopen_r (env_ok\<lparr>fopen_r := Some 2\<rparr>) = Some 2
   \<and> fprintf_r (env_ok\<lparr>fprintf_r := Some (28, 0)\<rparr>) = Some (28, 0)
   \<and> fflush_r (env_ok\<lparr>fflush_r := Some (28, 3)\<rparr>) = Some (28, 3)
   \<and> fclose_r (env_ok\<lparr>fclose_r := Some (5, 0)\<rparr>) = Some (5, 0)
   \<and> status (env_ok\<lparr>fopen_r := Some 2\<rparr>) argv_ok w_init = Exited 1
   \<and> diags (env_ok\<lparr>fopen_r := Some 2\<rparr>) argv_ok w_init =
        [Perror ''fopen session file'' 2]
   \<and> \<not> list_ex is_exec (calls (env_ok\<lparr>fopen_r := Some 2\<rparr>) argv_ok w_init)
   \<and> status (env_ok\<lparr>fopen_r := Some 13\<rparr>) argv_ok w_init = Exited 1
   \<and> diags (env_ok\<lparr>fopen_r := Some 13\<rparr>) argv_ok w_init =
        [Perror ''fopen session file'' 13]
   \<and> \<not> list_ex is_exec (calls (env_ok\<lparr>fopen_r := Some 13\<rparr>) argv_ok w_init)
   \<and> status (env_ok\<lparr>fprintf_r := Some (28, 0)\<rparr>) argv_ok w_init = Exited 1
   \<and> diags (env_ok\<lparr>fprintf_r := Some (28, 0)\<rparr>) argv_ok w_init =
        [Perror ''fprintf session file'' 28]
   \<and> \<not> list_ex is_exec (calls (env_ok\<lparr>fprintf_r := Some (28, 0)\<rparr>) argv_ok w_init)
   \<and> status (env_ok\<lparr>fflush_r := Some (28, 3)\<rparr>) argv_ok w_init = Exited 1
   \<and> diags (env_ok\<lparr>fflush_r := Some (28, 3)\<rparr>) argv_ok w_init =
        [Perror ''fflush session file'' 28]
   \<and> \<not> list_ex is_exec (calls (env_ok\<lparr>fflush_r := Some (28, 3)\<rparr>) argv_ok w_init)
   \<and> status (env_ok\<lparr>fclose_r := Some (5, 0)\<rparr>) argv_ok w_init = Exited 1
   \<and> diags (env_ok\<lparr>fclose_r := Some (5, 0)\<rparr>) argv_ok w_init =
        [Perror ''fclose session file'' 5]
   \<and> \<not> list_ex is_exec (calls (env_ok\<lparr>fclose_r := Some (5, 0)\<rparr>) argv_ok w_init)"
  using file_io_failure_stops_before_exec
      [of argv_ok "env_ok\<lparr>fopen_r := Some 2\<rparr>" 2 w_init 0]
    file_io_failure_stops_before_exec
      [of argv_ok "env_ok\<lparr>fopen_r := Some 13\<rparr>" 13 w_init 0]
    file_io_failure_stops_before_exec
      [of argv_ok "env_ok\<lparr>fprintf_r := Some (28, 0)\<rparr>" 28 w_init 0]
    file_io_failure_stops_before_exec
      [of argv_ok "env_ok\<lparr>fflush_r := Some (28, 3)\<rparr>" 28 w_init 3]
    file_io_failure_stops_before_exec
      [of argv_ok "env_ok\<lparr>fclose_r := Some (5, 0)\<rparr>" 5 w_init 0]
  by (simp add: env_ok_def argv_ok_def ret_def)

text \<open>
  Claim C7. Whenever a run calls \<open>execvp\<close>, the file is \<open>argv[2]\<close> and the argument
  vector is \<open>argv[2]\<close> followed by \<open>argv[3]\<close>, ... in order and unchanged; a run that
  ends replaced has made this call last. The call is \<open>execvp\<close>, the member of the
  \<open>exec\<close> family that looks a file name without a slash up in the search path.
\<close>

theorem exec_argument_vector:
  "(Execvp f a \<in> set (calls env argv w) \<longrightarrow>
      3 \<le> length argv \<and> f = argv ! 2 \<and> a = argv ! 2 # drop 3 argv)
   \<and> (status env argv w = Replaced f a \<longrightarrow>
      3 \<le> length argv \<and> f = argv ! 2 \<and> a = argv ! 2 # drop 3 argv
      \<and> last (calls env argv w) = Execvp f a)"
proof (cases rule: run_cases [where argv = argv and env = env])
  case exec
  then have "2 < length argv"
    by simp
  from Cons_nth_drop_Suc [OF this] have "drop 2 argv = argv ! 2 # drop 3 argv"
    by simp
  with exec show ?thesis
    by (cases "execvp_r env") (auto simp add: path_exec)
qed (simp_all add: path_usage path_fork_fail path_parent path_setsid_fail
      path_getsid_fail path_fopen_fail path_fprintf_fail path_fflush_fail path_fclose_fail)

theorem exec_argument_vector_witness:
  "Execvp ''echo'' [''echo'', ''hello'', ''world''] \<in> set (calls env_ok argv_ok w_init)
   \<and> status env_ok argv_ok w_init = Replaced ''echo'' [''echo'', ''hello'', ''world'']
   \<and> 3 \<le> length argv_ok \<and> ''echo'' = argv_ok ! 2
   \<and> [''echo'', ''hello'', ''world''] = argv_ok ! 2 # drop 3 argv_ok
   \<and> last (calls env_ok argv_ok w_init) = Execvp ''echo'' [''echo'', ''hello'', ''world'']"
proof -
  have c:
    "Execvp ''echo'' [''echo'', ''hello'', ''world''] \<in> set (calls env_ok argv_ok w_init)"
    "status env_ok argv_ok w_init = Replaced ''echo'' [''echo'', ''hello'', ''world'']"
    using env_ok_child by (simp_all add: path_exec env_ok_vals env_ok_def)
  from exec_argument_vector
    [of "''echo''" "[''echo'', ''hello'', ''world'']" env_ok argv_ok w_init] c
  show ?thesis by simp
qed

text \<open>
  Claim C8. A run that calls \<open>fopen\<close> has called \<open>fork\<close> (returning 0), \<open>setsid\<close>
  and \<open>getsid\<close> before, all with success, and opens \<open>argv[1]\<close>. After a usage error or
  a failing \<open>fork\<close>, \<open>setsid\<close> or \<open>getsid\<close> the files are as before, and the run
  has made no call on the session file.
\<close>

theorem session_file_opened_last:
  "(Fopen p b \<in> set (calls env argv w) \<longrightarrow>
       p = argv ! 1 \<and> 0 \<le> ret (setsid_r env) \<and> 0 \<le> ret (getsid_r env)
     \<and> take 4 (calls env argv w) =
         [Fork 0, Setsid (ret (setsid_r env)), Getsid (ret (getsid_r env)), Fopen p b])
   \<and> (length argv < 3 \<or> ret (fork_r env) < 0
        \<or> ret (fork_r env) = 0 \<and> (ret (setsid_r env) < 0 \<or> ret (getsid_r env) < 0) \<longrightarrow>
       fs (final env argv w) = fs w \<and> \<not> list_ex on_file (calls env argv w))"
proof (cases rule: run_cases [where argv = argv and env = env])
  case exec
  then show ?thesis
    by (auto simp add: path_exec)
next
  case (fprintf_fail e k)
  then show ?thesis
    by (auto simp add: path_fprintf_fail)
next
  case (fflush_fail e k)
  then show ?thesis
    by (auto simp add: path_fflush_fail)
next
  case (fclose_fail e k)
  then show ?thesis
    by (auto simp add: path_fclose_fail)
next
  case (fopen_fail e)
  then show ?thesis
    by (auto simp add: path_fopen_fail)
qed (simp_all add: path_usage path_fork_fail path_parent path_setsid_fail path_getsid_fail)

theorem session_file_opened_last_witness:
  "Fopen ''/tmp/sess.txt'' True \<in> set (calls env_ok argv_ok w_init)
   \<and> take 4 (calls env_ok argv_ok w_init) =
       [Fork 0, Setsid 4242, Getsid 4242, Fopen ''/tmp/sess.txt'' True]
   \<and> length [''setsid'', ''/tmp/sess.txt''] < 3
   \<and> fs (final env_ok [''setsid'', ''/tmp/sess.txt''] w_init) = fs w_init
   \<and> \<not> list_ex on_file (calls env_ok [''setsid'', ''/tmp/sess.txt''] w_init)
   \<and> ret (fork_r (env_ok\<lparr>fork_r := Err 35\<rparr>)) < 0
   \<and> fs (final (env_ok\<lparr>fork_r := Err 35\<rparr>) argv_ok w_init) = fs w_init
   \<and> \<not> list_ex on_file (calls (env_ok\<lparr>fork_r := Err 35\<rparr>) argv_ok w_init)
   \<and> ret (setsid_r (env_ok\<lparr>setsid_r := Err 1\<rparr>)) < 0
   \<and> fs (final (env_ok\<lparr>setsid_r := Err 1\<rparr>) argv_ok w_init) = fs w_init
   \<and> \<not> list_ex on_file (calls (env_ok\<lparr>setsid_r := Err 1\<rparr>) argv_ok w_init)
   \<and> ret (getsid_r (env_ok\<lparr>getsid_r := Err 1\<rparr>)) < 0
   \<and> fs (final (env_ok\<lparr>getsid_r := Err 1\<rparr>) argv_ok w_init) = fs w_init
   \<and> \<not> list_ex on_file (calls (env_ok\<lparr>getsid_r := Err 1\<rparr>) argv_ok w_init)"
proof -
  have c: "Fopen ''/tmp/sess.txt'' True \<in> set (calls env_ok argv_ok w_init)"
    using env_ok_child by (simp add: path_exec env_ok_vals)
  from c
    session_file_opened_last [of "''/tmp/sess.txt''" True env_ok argv_ok w_init]
    session_file_opened_last
      [of "''/tmp/sess.txt''" True env_ok "[''setsid'', ''/tmp/sess.txt'']" w_init]
    session_file_opened_last
      [of "''/tmp/sess.txt''" True "env_ok\<lparr>fork_r := Err 35\<rparr>" argv_ok w_init]
    session_file_opened_last
      [of "''/tmp/sess.txt''" True "env_ok\<lparr>setsid_r := Err 1\<rparr>" argv_ok w_init]
    session_file_opened_last
      [of "''/tmp/sess.txt''" True "env_ok\<lparr>getsid_r := Err 1\<rparr>" argv_ok w_init]
  show ?thesis
    by (simp add: env_ok_def argv_ok_def ret_def)
qed

text \<open>
  Claim C9. In every run each \<open>fclose\<close> gives up a stream that is open, and no stream
  is open at the end or when \<open>execvp\<close> is called. A run in which \<open>fopen\<close> succeeded,
  also one in which \<open>fprintf\<close> or \<open>fflush\<close> then failed, calls \<open>fclose\<close> exactly once.
\<close>

theorem session_stream_closed_once:
  "open_streams (calls env argv w) 0 = Some 0
   \<and> open_streams (takeWhile (\<lambda>c. \<not> is_exec c) (calls env argv w)) 0 = Some 0
   \<and> (Fopen p True \<in> set (calls env argv w) \<longrightarrow>
        length (filter (\<lambda>c. fn c = ''fclose'') (calls env argv w)) = 1)"
proof (cases rule: run_cases [where argv = argv and env = env])
  case exec
  then show ?thesis
    by (simp add: path_exec)
qed (simp_all add: fail_paths)

theorem session_stream_closed_once_witness:
  "Fopen ''/tmp/sess.txt'' True
     \<in> set (calls (env_ok\<lparr>fprintf_r := Some (28, 0)\<rparr>) argv_ok w_init)
   \<and> length (filter (\<lambda>c. fn c = ''fclose'')
        (calls (env_ok\<lparr>fprintf_r := Some (28, 0)\<rparr>) argv_ok w_init)) = 1
   \<and> open_streams (calls (env_ok\<lparr>fprintf_r := Some (28, 0)\<rparr>) argv_ok w_init) 0 = Some 0
   \<and> Fopen ''/tmp/sess.txt'' True
     \<in> set (calls (env_ok\<lparr>fflush_r := Some (28, 3)\<rparr>) argv_ok w_init)
   \<and> length (filter (\<lambda>c. fn c = ''fclose'')
        (calls (env_ok\<lparr>fflush_r := Some (28, 3)\<rparr>) argv_ok w_init)) = 1
   \<and> open_streams (calls (env_ok\<lparr>fflush_r := Some (28, 3)\<rparr>) argv_ok w_init) 0 = Some 0"
proof -
  have c: "Fopen ''/tmp/sess.txt'' True
      \<in> set (calls (env_ok\<lparr>fprintf_r := Some (28, 0)\<rparr>) argv_ok w_init)"
    "Fopen ''/tmp/sess.txt'' True
      \<in> set (calls (env_ok\<lparr>fflush_r := Some (28, 3)\<rparr>) argv_ok w_init)"
    using env_ok_child
    by (simp_all add: path_fprintf_fail [where e = 28 and k = 0]
        path_fflush_fail [where e = 28 and k = 3] env_ok_vals env_ok_def)
  from c session_stream_closed_once
      [of "env_ok\<lparr>fprintf_r := Some (28, 0)\<rparr>" argv_ok w_init "''/tmp/sess.txt''"]
    session_stream_closed_once
      [of "env_ok\<lparr>fflush_r := Some (28, 3)\<rparr>" argv_ok w_init "''/tmp/sess.txt''"]
  show ?thesis by simp
qed

text \<open>
  Claim C10. No run writes to standard output. A run that ends with status 1 has put
  exactly one line on the error stream, and every other run none. (What the new image
  writes after \<open>execvp\<close> is not part of the program.)
\<close>

theorem nothing_on_stdout:
  "out (final env argv w) = out w
   \<and> length (diags env argv w) = (if status env argv w = Exited 1 then 1 else 0)"
proof (cases rule: run_cases [where argv = argv and env = env])
  case exec
  then show ?thesis
    by (cases "execvp_r env") (simp_all add: path_exec)
qed (simp_all add: fail_paths)

theorem nothing_on_stdout_witness:
  "out (final env_ok argv_ok w_init) = [] \<and> diags env_ok argv_ok w_init = []
   \<and> out (final (env_ok\<lparr>execvp_r := Some 2\<rparr>) argv_ok w_init) = []
   \<and> length (diags (env_ok\<lparr>execvp_r := Some 2\<rparr>) argv_ok w_init) = 1"
proof -
  have c: "status env_ok argv_ok w_init \<noteq> Exited 1"
    "status (env_ok\<lparr>execvp_r := Some 2\<rparr>) argv_ok w_init = Exited 1"
    using env_ok_child by (simp_all add: path_exec env_ok_def)
  from c nothing_on_stdout [of env_ok argv_ok w_init]
    nothing_on_stdout [of "env_ok\<lparr>execvp_r := Some 2\<rparr>" argv_ok w_init]
  show ?thesis by (simp add: w_init_def)
qed

end
